theory Spec2Isabelle
  imports Complex_Main "HOL-Library.Multiset"
begin

section \<open>Data model\<close>

text \<open>
  A Python \<^verbatim>\<open>str\<close> is modelled as a \<^typ>\<open>string\<close>, one \<^typ>\<open>char\<close> per character of
  the password. The four character classes are ASCII, so every character outside
  ASCII behaves like a \<^typ>\<open>char\<close> above 127: it belongs to no class. Python's
  unbounded \<^verbatim>\<open>int\<close> is \<^typ>\<open>int\<close>, and \<^verbatim>\<open>None\<close> is \<^term>\<open>None\<close> of an option type.
\<close>

subsection \<open>core/security.py\<close>

text \<open>
  \<^verbatim>\<open>string.ascii_uppercase\<close>, \<^verbatim>\<open>string.ascii_lowercase\<close>, \<^verbatim>\<open>string.digits\<close> and
  \<^verbatim>\<open>string.punctuation\<close>, written out. The double quote, the apostrophe and the
  backslash of the punctuation are given by their code points.
\<close>

definition UPPERCASE :: string where
  "UPPERCASE = ''ABCDEFGHIJKLMNOPQRSTUVWXYZ''"

definition LOWERCASE :: string where
  "LOWERCASE = ''abcdefghijklmnopqrstuvwxyz''"

definition DIGITS :: string where
  "DIGITS = ''0123456789''"

definition SYMBOLS :: string where
  "SYMBOLS = ''!'' @ [CHR 0x22] @ ''#$%&'' @ [CHR 0x27] @ ''()*+,-./:;<=>?@[''
     @ [CHR 0x5C] @ '']^_`{|}~''"

definition FULL_SET :: string where
  "FULL_SET = UPPERCASE @ LOWERCASE @ DIGITS @ SYMBOLS"

subsection \<open>core/config.py\<close>

record PasswordPolicy =
  min_length :: int
  max_length :: int
  default_length :: int

text \<open>\<^verbatim>\<open>get_policy()\<close> returns the cached \<^verbatim>\<open>PasswordPolicy()\<close>, built from the field defaults.\<close>

definition get_policy :: PasswordPolicy where
  "get_policy = \<lparr>min_length = 12, max_length = 128, default_length = 16\<rparr>"

subsection \<open>Errors\<close>

text \<open>
  Every \<^verbatim>\<open>raise\<close> of the source is a value: \<open>ValueError\<close> with its message;
  \<open>ValidationError\<close>, which pydantic raises when a model cannot be built, with the
  \<open>msg\<close> of its one error; \<open>RequestValidationError\<close>, with which the framework rejects
  a request body whose model cannot be built and which it answers with status 422,
  carrying the same \<open>msg\<close>; and \<open>HTTPException\<close> with the status code and the
  detail the router sets.
\<close>

datatype error =
    ValueError string
  | ValidationError string
  | RequestValidationError string
  | HTTPException int string

subsection \<open>core/validator.py\<close>

record ValidationResult =
  length_ok :: bool
  upper_ok :: bool
  lower_ok :: bool
  digit_ok :: bool
  symbol_ok :: bool

definition overall_result :: "ValidationResult \<Rightarrow> bool" where
  "overall_result v =
     list_all (\<lambda>b. b) [length_ok v, upper_ok v, lower_ok v, digit_ok v, symbol_ok v]"

definition check_length :: "string \<Rightarrow> bool" where
  "check_length password =
     (let policy = get_policy
      in min_length policy \<le> int (length password)
         \<and> int (length password) \<le> max_length policy)"

definition check_upper :: "string \<Rightarrow> bool" where
  "check_upper password = list_ex (\<lambda>ch. ch \<in> set UPPERCASE) password"

definition check_lower :: "string \<Rightarrow> bool" where
  "check_lower password = list_ex (\<lambda>ch. ch \<in> set LOWERCASE) password"

definition check_digit :: "string \<Rightarrow> bool" where
  "check_digit password = list_ex (\<lambda>ch. ch \<in> set DIGITS) password"

definition check_symbol :: "string \<Rightarrow> bool" where
  "check_symbol password = list_ex (\<lambda>ch. ch \<in> set SYMBOLS) password"

definition validate_password :: "string \<Rightarrow> ValidationResult" where
  "validate_password password =
     \<lparr>length_ok = check_length password,
      upper_ok = check_upper password,
      lower_ok = check_lower password,
      digit_ok = check_digit password,
      symbol_ok = check_symbol password\<rparr>"

subsection \<open>The random source\<close>

text \<open>
  \<^verbatim>\<open>secrets.choice\<close> and \<^verbatim>\<open>SystemRandom.shuffle\<close> draw from the operating system's
  entropy. The source of randomness is an explicit tape of draws that every call
  reads from and hands on; a property proved for every tape holds for every outcome
  of the random draws. \<open>randbelow n\<close> is the library's \<^verbatim>\<open>_randbelow(n)\<close>: a number
  below \<open>n\<close>, here the next draw reduced modulo \<open>n\<close>.
\<close>

type_synonym rng = "nat \<Rightarrow> nat"

definition randbelow :: "nat \<Rightarrow> rng \<Rightarrow> nat \<times> rng" where
  "randbelow n r = (r 0 mod n, \<lambda>i. r (Suc i))"

text \<open>
  \<^verbatim>\<open>secrets.choice(seq)\<close> is \<^verbatim>\<open>seq[_randbelow(len(seq))]\<close>. It raises on an empty
  sequence; the source only calls it with the five non-empty constants above.
\<close>

definition choice :: "'a list \<Rightarrow> rng \<Rightarrow> 'a \<times> rng" where
  "choice seq r = (let (i, r') = randbelow (length seq) r in (seq ! i, r'))"

text \<open>
  \<^verbatim>\<open>SecureRandom.shuffle\<close> delegates to the library's \<^verbatim>\<open>shuffle\<close>:
  \<^verbatim>\<open>for i in reversed(range(1, len(x))): j = randbelow(i + 1); x[i], x[j] = x[j], x[i]\<close>.
\<close>

primrec shuffle_loop :: "nat \<Rightarrow> 'a list \<Rightarrow> rng \<Rightarrow> 'a list \<times> rng" where
  "shuffle_loop 0 x r = (x, r)"
| "shuffle_loop (Suc k) x r =
     (let i = Suc k;
          (j, r') = randbelow (i + 1) r
      in shuffle_loop k (x[i := x ! j, j := x ! i]) r')"

definition shuffle :: "'a list \<Rightarrow> rng \<Rightarrow> 'a list \<times> rng" where
  "shuffle x r = shuffle_loop (length x - 1) x r"

subsection \<open>core/generator.py\<close>

text \<open>\<^verbatim>\<open>_pick(characters, count)\<close> yields \<open>count\<close> choices; \<^verbatim>\<open>range(count)\<close> is the loop.\<close>

primrec pick :: "string \<Rightarrow> nat \<Rightarrow> rng \<Rightarrow> string \<times> rng" where
  "pick characters 0 r = ([], r)"
| "pick characters (Suc n) r =
     (let (c, r1) = choice characters r;
          (cs, r2) = pick characters n r1
      in (c # cs, r2))"

text \<open>
  \<^verbatim>\<open>length or policy.default_length\<close> takes the default when \<open>length\<close> is falsy:
  \<^verbatim>\<open>None\<close> or \<open>0\<close>.
\<close>

definition effective_length :: "int option \<Rightarrow> int" where
  "effective_length len =
     (case len of
        None \<Rightarrow> default_length get_policy
      | Some l \<Rightarrow> if l = 0 then default_length get_policy else l)"

definition generate_password :: "int option \<Rightarrow> rng \<Rightarrow> error + string" where
  "generate_password len r =
     (let policy = get_policy;
          l = effective_length len
      in if l < 4 then
           Inl (ValueError ''Password length must be at least 4 to satisfy constraints'')
         else if l > max_length policy then
           Inl (ValueError ''Requested password length exceeds policy maximum'')
         else
           let (u, r1) = choice UPPERCASE r;
               (lo, r2) = choice LOWERCASE r1;
               (d, r3) = choice DIGITS r2;
               (s, r4) = choice SYMBOLS r3;
               required_chars = [u, lo, d, s]
           in if l < int (length required_chars) then
                Inl (ValueError ''Length insufficient for required character categories'')
              else
                let remaining_length = l - int (length required_chars);
                    (rest, r5) = pick FULL_SET (nat remaining_length) r4;
                    password_chars = required_chars @ rest;
                    (shuffled, r6) = shuffle password_chars r5
                in Inr shuffled)"

subsection \<open>core/scoring.py\<close>

text \<open>
  The scorer computes with Python floats. The model computes with real numbers:
  \<^verbatim>\<open>math.log2\<close> is \<^term>\<open>log 2\<close> and \<^verbatim>\<open>round\<close> rounds a half to the even neighbour, as
  Python does. The final clamp and the label are integer computations. The local
  variables of \<^verbatim>\<open>score\<close> (\<open>base\<close>, \<open>diversity\<close>, \<open>entropy_score\<close>, \<open>repetition_penalty\<close>,
  \<open>raw_score\<close>) are definitions of their own, so that statements can name them.
\<close>

record StrengthResult =
  score_value :: int
  label :: string

definition LABELS :: "((int \<times> int) \<times> string) list" where
  "LABELS = [((0, 4), ''weak''), ((4, 7), ''medium''), ((7, 11), ''strong'')]"

definition in_range :: "int \<Rightarrow> int \<times> int \<Rightarrow> bool" where
  "in_range n rg = (fst rg \<le> n \<and> n < snd rg)"

definition label_from_score :: "int \<Rightarrow> string" where
  "label_from_score s =
     (case find (\<lambda>(score_range, lbl). in_range s score_range) LABELS of
        Some (score_range, lbl) \<Rightarrow> lbl
      | None \<Rightarrow> ''unknown'')"

definition character_set_size :: "string \<Rightarrow> int" where
  "character_set_size password =
     (let size = foldl (\<lambda>size charset.
                    if list_ex (\<lambda>ch. ch \<in> set charset) password
                    then size + int (length charset) else size)
                  0 [UPPERCASE, LOWERCASE, DIGITS, SYMBOLS]
      in max size (int (length LOWERCASE)))"

definition entropy :: "string \<Rightarrow> real" where
  "entropy password =
     (let charset_size = character_set_size password
      in if password \<noteq> [] then log 2 (real_of_int (charset_size ^ length password))
         else 0)"

definition py_round :: "real \<Rightarrow> int" where
  "py_round x =
     (let f = \<lfloor>x\<rfloor>; d = x - real_of_int f
      in if d < 1 / 2 then f
         else if d > 1 / 2 then f + 1
         else if even f then f else f + 1)"

definition score_base :: "string \<Rightarrow> real" where
  "score_base password = real (min (length password) 20) / 2"

definition score_diversity :: "string \<Rightarrow> int" where
  "score_diversity password =
     (let validation = validate_password password
      in sum_list (map of_bool
           [upper_ok validation, lower_ok validation,
            digit_ok validation, symbol_ok validation]))"

definition entropy_score :: "string \<Rightarrow> real" where
  "entropy_score password = min (entropy password / 10) 4"

definition repetition_penalty :: "string \<Rightarrow> int" where
  "repetition_penalty password =
     (if list_ex (\<lambda>ch. real (count_list password ch) > real (length password) / 2)
           (remdups password)
      then - 2 else 0)"

definition raw_score :: "string \<Rightarrow> real" where
  "raw_score password =
     score_base password * (4 / 10) + real_of_int (score_diversity password) * (15 / 10)
       + entropy_score password + real_of_int (repetition_penalty password)"

definition score :: "string \<Rightarrow> StrengthResult" where
  "score password =
     (let bounded_score = max 0 (min 10 (py_round (raw_score password)))
      in \<lparr>score_value = bounded_score, label = label_from_score bounded_score\<rparr>)"

subsection \<open>services/password\_service.py\<close>

definition validate_flow :: "string \<Rightarrow> ValidationResult" where
  "validate_flow password = validate_password password"

definition generate_flow :: "int option \<Rightarrow> rng \<Rightarrow> error + string" where
  "generate_flow len r = generate_password len r"

definition strength_flow :: "string \<Rightarrow> StrengthResult" where
  "strength_flow password = score password"

text \<open>
  \<^verbatim>\<open>password or generate_password(length)\<close> generates when \<open>password\<close> is falsy:
  \<^verbatim>\<open>None\<close> or the empty string.
\<close>

definition full_flow ::
  "string option \<Rightarrow> int option \<Rightarrow> rng \<Rightarrow> error + (string \<times> ValidationResult \<times> StrengthResult)"
where
  "full_flow password len r =
     (case (case password of
              Some p \<Rightarrow> if p \<noteq> [] then Inr p else generate_password len r
            | None \<Rightarrow> generate_password len r) of
        Inl e \<Rightarrow> Inl e
      | Inr pwd \<Rightarrow> Inr (pwd, validate_password pwd, score pwd))"

subsection \<open>models/request\_schemas.py\<close>

record FullRequest =
  req_password :: "string option"
  req_length :: "int option"

text \<open>
  \<^verbatim>\<open>model_post_init\<close> raises a \<open>ValueError\<close> when both fields are falsy.
\<close>

definition model_post_init :: "FullRequest \<Rightarrow> error + FullRequest" where
  "model_post_init self =
     (if (req_password self = None \<or> req_password self = Some [])
         \<and> (req_length self = None \<or> req_length self = Some 0)
      then Inl (ValueError ''Provide either a password or a length for full analysis'')
      else Inr self)"

text \<open>
  Building a \<^verbatim>\<open>FullRequest\<close> first checks the field constraint on \<open>length\<close>
  (\<^verbatim>\<open>ge=4, le=256\<close>) and then runs \<^verbatim>\<open>model_post_init\<close>. Pydantic catches a
  \<open>ValueError\<close> raised there and raises its own \<open>ValidationError\<close>, whose \<open>msg\<close> is the
  message of the \<open>ValueError\<close> after the prefix \<^verbatim>\<open>Value error, \<close>; the constructor never
  lets a bare \<open>ValueError\<close> out.
\<close>

definition post_init_validated :: "FullRequest \<Rightarrow> error + FullRequest" where
  "post_init_validated self =
     (case model_post_init self of
        Inl (ValueError msg) \<Rightarrow> Inl (ValidationError (''Value error, '' @ msg))
      | Inl e \<Rightarrow> Inl e
      | Inr request \<Rightarrow> Inr request)"

definition FullRequest_init :: "string option \<Rightarrow> int option \<Rightarrow> error + FullRequest" where
  "FullRequest_init password len =
     (case len of
        Some l \<Rightarrow>
          if l < 4 then Inl (ValidationError ''Input should be greater than or equal to 4'')
          else if l > 256 then Inl (ValidationError ''Input should be less than or equal to 256'')
          else post_init_validated \<lparr>req_password = password, req_length = len\<rparr>
      | None \<Rightarrow> post_init_validated \<lparr>req_password = password, req_length = len\<rparr>)"

subsection \<open>routers/password.py\<close>

text \<open>
  The response of \<^verbatim>\<open>/password/full\<close>: the flags of the validation with its
  \<open>overall_result\<close>, the strength, and the password when it was generated.
\<close>

record FullResponse =
  resp_validation :: "ValidationResult \<times> bool"
  resp_strength :: StrengthResult
  resp_password :: "string option"

definition full_analysis :: "FullRequest \<Rightarrow> rng \<Rightarrow> error + FullResponse" where
  "full_analysis request r =
     (case full_flow (req_password request) (req_length request) r of
        Inl (ValueError msg) \<Rightarrow> Inl (HTTPException 400 msg)
      | Inl e \<Rightarrow> Inl e
      | Inr (password, validation, strength) \<Rightarrow>
          Inr \<lparr>resp_validation = (validation, overall_result validation),
               resp_strength = strength,
               resp_password = (if req_password request = None then Some password else None)\<rparr>)"

text \<open>
  The framework builds the \<^verbatim>\<open>FullRequest\<close> from the request body before it calls
  the handler; a request that cannot be built never reaches \<open>full_analysis\<close>: the
  framework turns pydantic's \<open>ValidationError\<close> into its \<open>RequestValidationError\<close> and
  answers with status 422.
\<close>

definition post_full :: "string option \<Rightarrow> int option \<Rightarrow> rng \<Rightarrow> error + FullResponse" where
  "post_full password len r =
     (case FullRequest_init password len of
        Inl (ValidationError msg) \<Rightarrow> Inl (RequestValidationError msg)
      | Inl e \<Rightarrow> Inl e
      | Inr request \<Rightarrow> full_analysis request r)"

subsection \<open>A sample tape\<close>

text \<open>A fixed tape of draws, 3, 10, 17, ..., on which the generator is evaluated below.\<close>

definition sample_tape :: rng where
  "sample_tape n = 7 * n + 3"

section \<open>The character classes\<close>

lemmas class_defs = UPPERCASE_def LOWERCASE_def DIGITS_def SYMBOLS_def

lemma distinct_FULL_SET: "distinct FULL_SET"
  by (simp add: FULL_SET_def class_defs)

text \<open>
  Claim C8. The four character-class constants are pairwise disjoint sets of
  characters, and the full generation alphabet is exactly their union.
\<close>

theorem character_classes_disjoint_union:
  "set UPPERCASE \<inter> set LOWERCASE = {} \<and> set UPPERCASE \<inter> set DIGITS = {}
   \<and> set UPPERCASE \<inter> set SYMBOLS = {} \<and> set LOWERCASE \<inter> set DIGITS = {}
   \<and> set LOWERCASE \<inter> set SYMBOLS = {} \<and> set DIGITS \<inter> set SYMBOLS = {}
   \<and> set FULL_SET = set UPPERCASE \<union> set LOWERCASE \<union> set DIGITS \<union> set SYMBOLS"
  using distinct_FULL_SET unfolding FULL_SET_def by auto

theorem character_classes_disjoint_union_witness:
  "CHR ''A'' \<in> set UPPERCASE \<and> CHR ''A'' \<notin> set LOWERCASE \<and> CHR ''A'' \<notin> set DIGITS
   \<and> CHR ''A'' \<notin> set SYMBOLS \<and> CHR ''A'' \<in> set FULL_SET"
  using character_classes_disjoint_union by (auto simp: UPPERCASE_def)

section \<open>The validator\<close>

text \<open>
  Claim C2. For every password \<open>p\<close>, the empty one included, \<open>validate_password p\<close>
  has \<open>length_ok\<close> true iff the length of \<open>p\<close> lies between the policy's minimum and
  maximum, each class flag true iff \<open>p\<close> contains a character of that class, and
  \<open>overall_result\<close> equal to the conjunction of the five flags. The validator is a
  total function into \<open>ValidationResult\<close>: it has no failing branch.
\<close>

theorem validate_password_flags:
  "length_ok (validate_password p)
     = (min_length get_policy \<le> int (length p) \<and> int (length p) \<le> max_length get_policy)
   \<and> upper_ok (validate_password p) = (\<exists>c\<in>set p. c \<in> set UPPERCASE)
   \<and> lower_ok (validate_password p) = (\<exists>c\<in>set p. c \<in> set LOWERCASE)
   \<and> digit_ok (validate_password p) = (\<exists>c\<in>set p. c \<in> set DIGITS)
   \<and> symbol_ok (validate_password p) = (\<exists>c\<in>set p. c \<in> set SYMBOLS)
   \<and> overall_result (validate_password p)
       = (length_ok (validate_password p) \<and> upper_ok (validate_password p)
          \<and> lower_ok (validate_password p) \<and> digit_ok (validate_password p)
          \<and> symbol_ok (validate_password p))"
  by (simp add: validate_password_def overall_result_def check_length_def check_upper_def
      check_lower_def check_digit_def check_symbol_def list_ex_iff)

theorem validate_password_flags_witness:
  "validate_password [] =
     \<lparr>length_ok = False, upper_ok = False, lower_ok = False, digit_ok = False,
      symbol_ok = False\<rparr>
   \<and> \<not> overall_result (validate_password [])"
  using validate_password_flags [of "[]"]
  by (simp add: get_policy_def validate_password_def check_length_def
      check_upper_def check_lower_def check_digit_def check_symbol_def)

section \<open>The generator\<close>

subsection \<open>Draws, picks and the shuffle\<close>

lemma choice_in_set: "seq \<noteq> [] \<Longrightarrow> fst (choice seq r) \<in> set seq"
  by (simp add: choice_def randbelow_def)

lemma length_pick: "length (fst (pick cs n r)) = n"
  by (induction n arbitrary: r) (simp_all add: split_beta Let_def)

text \<open>Every step of the shuffle swaps two positions of the list, so it permutes it.\<close>

lemma mset_shuffle_loop:
  "k < length x \<Longrightarrow> mset (fst (shuffle_loop k x r)) = mset x"
proof (induction k arbitrary: x r)
  case 0
  then show ?case by simp
next
  case (Suc k)
  let ?j = "fst (randbelow (Suc k + 1) r)"
  have "?j < Suc (Suc k)" by (simp add: randbelow_def)
  then have j: "?j < length x" using Suc.prems by linarith
  have "mset (x[Suc k := x ! ?j, ?j := x ! Suc k]) = mset x"
    using Suc.prems j by (simp add: mset_swap)
  moreover have "k < length (x[Suc k := x ! ?j, ?j := x ! Suc k])"
    using Suc.prems by simp
  ultimately show ?case using Suc.IH by (simp add: split_beta Let_def)
qed

lemma mset_shuffle: "mset (fst (shuffle x r)) = mset x"
proof (cases x)
  case Nil
  then show ?thesis by (simp add: shuffle_def)
next
  case (Cons a as)
  then show ?thesis by (simp add: shuffle_def mset_shuffle_loop)
qed

subsection \<open>Generation within the bounds\<close>

text \<open>
  When the effective length is within the bounds, the generator returns a permutation
  of one character of each class followed by \<open>length - 4\<close> characters.
\<close>

lemma generate_password_in_bounds:
  assumes lo: "4 \<le> effective_length len"
    and hi: "effective_length len \<le> max_length get_policy"
  shows "\<exists>u l d s rest pw.
           generate_password len r = Inr pw
         \<and> mset pw = mset ([u, l, d, s] @ rest)
         \<and> u \<in> set UPPERCASE \<and> l \<in> set LOWERCASE \<and> d \<in> set DIGITS \<and> s \<in> set SYMBOLS
         \<and> int (length rest) = effective_length len - 4"
proof -
  define r1 where "r1 = snd (choice UPPERCASE r)"
  define r2 where "r2 = snd (choice LOWERCASE r1)"
  define r3 where "r3 = snd (choice DIGITS r2)"
  define r4 where "r4 = snd (choice SYMBOLS r3)"
  define u where "u = fst (choice UPPERCASE r)"
  define l where "l = fst (choice LOWERCASE r1)"
  define d where "d = fst (choice DIGITS r2)"
  define s where "s = fst (choice SYMBOLS r3)"
  define picked where "picked = pick FULL_SET (nat (effective_length len - 4)) r4"
  define pw where "pw = fst (shuffle ([u, l, d, s] @ fst picked) (snd picked))"
  have gen: "generate_password len r = Inr pw"
    using lo hi
    by (simp add: generate_password_def Let_def split_beta pw_def picked_def
        u_def l_def d_def s_def r1_def r2_def r3_def r4_def)
  have m: "mset pw = mset ([u, l, d, s] @ fst picked)"
    unfolding pw_def by (rule mset_shuffle)
  have "UPPERCASE \<noteq> []" "LOWERCASE \<noteq> []" "DIGITS \<noteq> []" "SYMBOLS \<noteq> []"
    by (simp_all add: class_defs)
  then have cls: "u \<in> set UPPERCASE" "l \<in> set LOWERCASE" "d \<in> set DIGITS" "s \<in> set SYMBOLS"
    unfolding u_def l_def d_def s_def by (simp_all add: choice_in_set)
  have len: "int (length (fst picked)) = effective_length len - 4"
    using lo by (simp add: picked_def length_pick)
  from gen m cls len show ?thesis by blast
qed

lemma generate_password_ok:
  assumes lo: "4 \<le> effective_length len"
    and hi: "effective_length len \<le> max_length get_policy"
  shows "\<exists>pw. generate_password len r = Inr pw
         \<and> int (length pw) = effective_length len
         \<and> (\<exists>c\<in>set pw. c \<in> set UPPERCASE) \<and> (\<exists>c\<in>set pw. c \<in> set LOWERCASE)
         \<and> (\<exists>c\<in>set pw. c \<in> set DIGITS) \<and> (\<exists>c\<in>set pw. c \<in> set SYMBOLS)"
proof -
  from generate_password_in_bounds [OF lo hi, of r]
  obtain u l d s rest pw where gen: "generate_password len r = Inr pw"
    and m: "mset pw = mset ([u, l, d, s] @ rest)"
    and cls: "u \<in> set UPPERCASE" "l \<in> set LOWERCASE" "d \<in> set DIGITS" "s \<in> set SYMBOLS"
    and len: "int (length rest) = effective_length len - 4"
    by blast
  from m have "length pw = length ([u, l, d, s] @ rest)" by (rule mset_eq_length)
  with len have L: "int (length pw) = effective_length len" by simp
  from m have "set pw = set ([u, l, d, s] @ rest)" by (rule mset_eq_setD)
  then have "u \<in> set pw" "l \<in> set pw" "d \<in> set pw" "s \<in> set pw" by simp_all
  with cls gen L show ?thesis by blast
qed

text \<open>The generator raises exactly when the effective length is out of the bounds.\<close>

lemma generate_password_raises_iff:
  "(\<exists>e. generate_password len r = Inl e)
     \<longleftrightarrow> effective_length len < 4 \<or> effective_length len > max_length get_policy"
proof (cases "4 \<le> effective_length len \<and> effective_length len \<le> max_length get_policy")
  case True
  with generate_password_ok [of len r] show ?thesis by auto
next
  case False
  then show ?thesis by (auto simp: generate_password_def Let_def)
qed

lemma generate_password_nonzero_raises_iff:
  assumes "L \<noteq> 0"
  shows "(\<exists>e. generate_password (Some L) r = Inl e) \<longleftrightarrow> L < 4 \<or> L > max_length get_policy"
  using assms generate_password_raises_iff [of "Some L" r] by (simp add: effective_length_def)

subsection \<open>The generator on the sample tape\<close>

lemma generate_4_sample: "generate_password (Some 4) sample_tape = Inr ''Dk7]''"
  by code_simp

lemma generate_6_sample: "generate_password (Some 6) sample_tape = Inr ''fkDm7]''"
  by code_simp

subsection \<open>Claims about the generator\<close>

text \<open>
  Claim C1. For every length \<open>L\<close> with \<open>4 \<le> L \<le> max_length\<close> and every outcome of the
  random draws, \<open>generate_password L\<close> returns a string of length exactly \<open>L\<close> that
  contains an uppercase letter, a lowercase letter, a digit and a punctuation symbol.
\<close>

theorem generate_password_length_and_classes:
  assumes "4 \<le> L" and "L \<le> max_length get_policy"
  shows "\<exists>pw. generate_password (Some L) r = Inr pw
         \<and> int (length pw) = L
         \<and> (\<exists>c\<in>set pw. c \<in> set UPPERCASE) \<and> (\<exists>c\<in>set pw. c \<in> set LOWERCASE)
         \<and> (\<exists>c\<in>set pw. c \<in> set DIGITS) \<and> (\<exists>c\<in>set pw. c \<in> set SYMBOLS)"
proof -
  from assms have e: "effective_length (Some L) = L" by (simp add: effective_length_def)
  with assms generate_password_ok [of "Some L" r] show ?thesis by simp
qed

theorem generate_password_length_and_classes_witness:
  "(4::int) \<le> 6 \<and> 6 \<le> max_length get_policy
   \<and> generate_password (Some 6) sample_tape = Inr ''fkDm7]''
   \<and> length ''fkDm7]'' = 6
   \<and> check_upper ''fkDm7]'' \<and> check_lower ''fkDm7]''
   \<and> check_digit ''fkDm7]'' \<and> check_symbol ''fkDm7]''"
proof -
  have h1: "(4::int) \<le> 6" by simp
  have h2: "6 \<le> max_length get_policy" by (simp add: get_policy_def)
  have g: "generate_password (Some 6) sample_tape = Inr ''fkDm7]''" by (rule generate_6_sample)
  from generate_password_length_and_classes [OF h1 h2, of sample_tape] g
  have "(\<exists>c\<in>set ''fkDm7]''. c \<in> set UPPERCASE) \<and> (\<exists>c\<in>set ''fkDm7]''. c \<in> set LOWERCASE)
         \<and> (\<exists>c\<in>set ''fkDm7]''. c \<in> set DIGITS) \<and> (\<exists>c\<in>set ''fkDm7]''. c \<in> set SYMBOLS)"
    by auto
  then have "check_upper ''fkDm7]'' \<and> check_lower ''fkDm7]''
      \<and> check_digit ''fkDm7]'' \<and> check_symbol ''fkDm7]''"
    unfolding check_upper_def check_lower_def check_digit_def check_symbol_def list_ex_iff .
  with h1 h2 g show ?thesis by simp
qed

text \<open>
  Claim C3. The claim says that \<open>generate_password\<close> raises exactly when the requested
  length is below 4 or above the maximum, in particular at length 0. The code takes
  the default length when the argument is 0, as it does for an omitted argument, so a
  request for length 0 returns a password of the default length for every outcome of
  the random draws. For every other length the claim holds
  (\<open>generate_password_nonzero_raises_iff\<close>).
\<close>

theorem generate_password_zero_takes_default:
  "effective_length (Some 0) = default_length get_policy
   \<and> (\<exists>pw. generate_password (Some 0) r = Inr pw
         \<and> int (length pw) = default_length get_policy)"
proof -
  have e: "effective_length (Some 0) = default_length get_policy"
    by (simp add: effective_length_def)
  have "4 \<le> effective_length (Some 0)" "effective_length (Some 0) \<le> max_length get_policy"
    by (simp_all add: e get_policy_def)
  from generate_password_ok [OF this, of r] e show ?thesis by auto
qed

text \<open>
  Claim C10. The generator's lower bound is not the validator's minimum: for every
  \<open>L\<close> with \<open>4 \<le> L < min_length\<close>, \<open>generate_password L\<close> succeeds, and validating the
  password it returns gives \<open>length_ok\<close> false and so \<open>overall_result\<close> false.
\<close>

theorem generate_password_below_min_length:
  assumes "4 \<le> L" and "L < min_length get_policy"
  shows "\<exists>pw. generate_password (Some L) r = Inr pw \<and> int (length pw) = L
           \<and> \<not> length_ok (validate_password pw)
           \<and> \<not> overall_result (validate_password pw)"
proof -
  from assms have e: "effective_length (Some L) = L" by (simp add: effective_length_def)
  from assms have "L \<le> max_length get_policy" by (simp add: get_policy_def)
  with e assms generate_password_ok [of "Some L" r]
  obtain pw where g: "generate_password (Some L) r = Inr pw" and l: "int (length pw) = L"
    by auto
  from l assms have n: "\<not> length_ok (validate_password pw)"
    by (simp add: validate_password_def check_length_def)
  then have "\<not> overall_result (validate_password pw)"
    by (simp add: overall_result_def)
  with g l n show ?thesis by blast
qed

theorem generate_password_below_min_length_witness:
  "(4::int) \<le> 4 \<and> 4 < min_length get_policy
   \<and> generate_password (Some 4) sample_tape = Inr ''Dk7]''
   \<and> \<not> length_ok (validate_password ''Dk7]'')
   \<and> \<not> overall_result (validate_password ''Dk7]'')"
proof -
  have h1: "(4::int) \<le> 4" by simp
  have h2: "4 < min_length get_policy" by (simp add: get_policy_def)
  from generate_password_below_min_length [OF h1 h2, of sample_tape] generate_4_sample h1 h2
  show ?thesis by auto
qed

section \<open>The scorer\<close>

lemma label_from_score_bands:
  assumes "0 \<le> s" and "s \<le> 10"
  shows "label_from_score s =
           (if s \<le> 3 then ''weak'' else if s \<le> 6 then ''medium'' else ''strong'')"
  using assms by (simp add: label_from_score_def LABELS_def in_range_def)

lemma py_round_between:
  assumes "real_of_int n \<le> x" and "x < real_of_int n + 1 / 2"
  shows "py_round x = n"
proof -
  from assms have "\<lfloor>x\<rfloor> = n" by linarith
  with assms show ?thesis by (simp add: py_round_def Let_def)
qed

subsection \<open>The empty password\<close>

lemma score_parts_empty:
  "score [] = \<lparr>score_value = 0, label = ''weak''\<rparr>
   \<and> entropy [] = 0 \<and> score_diversity [] = 0 \<and> score_base [] = 0
   \<and> repetition_penalty [] = 0 \<and> raw_score [] = 0"
proof -
  have e: "entropy [] = 0" by (simp add: entropy_def)
  have d: "score_diversity [] = 0"
    by (simp add: score_diversity_def validate_password_def check_upper_def check_lower_def
        check_digit_def check_symbol_def)
  have b: "score_base [] = 0" by (simp add: score_base_def)
  have p: "repetition_penalty [] = 0" by (simp add: repetition_penalty_def)
  have r: "raw_score [] = 0" by (simp add: raw_score_def e d b p entropy_score_def)
  have "py_round 0 = 0" by (simp add: py_round_def)
  with r have "score [] = \<lparr>score_value = 0, label = ''weak''\<rparr>"
    by (simp add: score_def label_from_score_def LABELS_def in_range_def)
  with e d b p r show ?thesis by simp
qed

subsection \<open>The password aaaa\<close>

text \<open>
  One class of 26 characters, four characters, all the same: the entropy is
  \<open>log 2 (26 ^ 4)\<close>, between 18 and 19, the raw score lies between 2.1 and 2.2, and
  the score is 2.
\<close>

lemma character_set_size_aaaa: "character_set_size ''aaaa'' = 26"
  by (simp add: character_set_size_def class_defs)

lemma entropy_aaaa: "18 < entropy ''aaaa'' \<and> entropy ''aaaa'' < 19"
proof -
  have e: "entropy ''aaaa'' = log 2 456976"
    by (simp add: entropy_def character_set_size_aaaa)
  have "(2::real) powr 18 < 456976" "(456976::real) < 2 powr 19"
    by (simp_all add: powr_numeral)
  then have "18 < log 2 456976" "log 2 456976 < 19"
    by (simp_all add: less_log_iff log_less_iff)
  with e show ?thesis by simp
qed

lemma raw_score_aaaa: "21 / 10 < raw_score ''aaaa'' \<and> raw_score ''aaaa'' < 22 / 10"
proof -
  have b: "score_base ''aaaa'' = 2" by (simp add: score_base_def)
  have d: "score_diversity ''aaaa'' = 1"
    by (simp add: score_diversity_def validate_password_def check_upper_def check_lower_def
        check_digit_def check_symbol_def class_defs)
  have p: "repetition_penalty ''aaaa'' = - 2" by (simp add: repetition_penalty_def)
  from entropy_aaaa have s: "entropy_score ''aaaa'' = entropy ''aaaa'' / 10"
    by (simp add: entropy_score_def)
  from entropy_aaaa show ?thesis by (simp add: raw_score_def b d p s)
qed

lemma score_aaaa: "score ''aaaa'' = \<lparr>score_value = 2, label = ''weak''\<rparr>"
proof -
  from raw_score_aaaa have "py_round (raw_score ''aaaa'') = 2"
    by (intro py_round_between) simp_all
  then show ?thesis
    by (simp add: score_def label_from_score_def LABELS_def in_range_def)
qed

subsection \<open>Claims about the scorer\<close>

text \<open>
  Claim C4. For every password \<open>p\<close>, the score of \<open>score p\<close> is an integer between 0
  and 10, and the label is a function of the score alone: 0 to 3 is weak, 4 to 6 is
  medium, 7 to 10 is strong, and no score gives unknown. The proof reads nothing of
  the raw score but that it is rounded and clamped, so it does not depend on how
  the floating-point sum is computed.
\<close>

theorem score_bounded_and_labelled:
  "0 \<le> score_value (score p) \<and> score_value (score p) \<le> 10
   \<and> label (score p) = label_from_score (score_value (score p))
   \<and> label (score p) =
       (if score_value (score p) \<le> 3 then ''weak''
        else if score_value (score p) \<le> 6 then ''medium'' else ''strong'')
   \<and> label (score p) \<noteq> ''unknown''"
proof -
  define b where "b = max 0 (min 10 (py_round (raw_score p)))"
  have s: "score p = \<lparr>score_value = b, label = label_from_score b\<rparr>"
    by (simp add: score_def b_def Let_def)
  have b: "0 \<le> b" "b \<le> 10" by (simp_all add: b_def)
  from label_from_score_bands [OF b] s b show ?thesis by simp
qed

theorem score_bounded_and_labelled_witness:
  "score_value (score ''aaaa'') = 2 \<and> label (score ''aaaa'') = ''weak''
   \<and> label_from_score 2 = ''weak''"
  using score_bounded_and_labelled [of "''aaaa''"] score_aaaa by simp

text \<open>
  Claim C5. The score of the empty password is exactly score 0 with label weak: its
  entropy is 0, taken from the branch for the empty password and not from the
  character-set size, its diversity is 0, its length contribution is 0 and it has no
  repetition penalty.
\<close>

theorem score_empty:
  "score [] = \<lparr>score_value = 0, label = ''weak''\<rparr>
   \<and> entropy [] = 0 \<and> score_diversity [] = 0 \<and> score_base [] = 0
   \<and> repetition_penalty [] = 0"
  using score_parts_empty by simp

theorem score_empty_witness:
  "score_value (score []) = 0 \<and> label (score []) = ''weak'' \<and> entropy [] = 0"
  using score_empty by simp

section \<open>The orchestration\<close>




text \<open>
  Claim C7. With neither a password nor a length, the full analysis fails with an
  invalid-argument error that comes from the request's own check: \<open>model_post_init\<close>
  raises its \<open>ValueError\<close>, building the request fails with the \<open>ValidationError\<close> that
  wraps it, and the endpoint rejects the request (status 422) without reaching the
  handler, so nothing is generated, validated or scored, whatever the random draws.
  The flow itself would not fail there: it would generate a password of the default
  length.
\<close>

theorem post_full_both_absent:
  "model_post_init \<lparr>req_password = None, req_length = None\<rparr>
     = Inl (ValueError ''Provide either a password or a length for full analysis'')
   \<and> FullRequest_init None None
     = Inl (ValidationError
         ''Value error, Provide either a password or a length for full analysis'')
   \<and> post_full None None r
     = Inl (RequestValidationError
         ''Value error, Provide either a password or a length for full analysis'')
   \<and> (\<exists>pw. full_flow None None r = Inr (pw, validate_password pw, score pw))"
proof -
  have m: "model_post_init \<lparr>req_password = None, req_length = None\<rparr>
     = Inl (ValueError ''Provide either a password or a length for full analysis'')"
    by (simp add: model_post_init_def)
  then have i: "FullRequest_init None None
     = Inl (ValidationError
         ''Value error, Provide either a password or a length for full analysis'')"
    by (simp add: FullRequest_init_def post_init_validated_def)
  then have p: "post_full None None r
     = Inl (RequestValidationError
         ''Value error, Provide either a password or a length for full analysis'')"
    by (simp add: post_full_def)
  have "4 \<le> effective_length None" "effective_length None \<le> max_length get_policy"
    by (simp_all add: effective_length_def get_policy_def)
  from generate_password_ok [OF this, of r]
  obtain pw where "generate_password None r = Inr pw" by blast
  then have "full_flow None None r = Inr (pw, validate_password pw, score pw)"
    by (simp add: full_flow_def)
  with m i p show ?thesis by blast
qed

theorem post_full_both_absent_witness:
  "post_full None None sample_tape
     = Inl (RequestValidationError
         ''Value error, Provide either a password or a length for full analysis'')
   \<and> FullRequest_init None None
     = Inl (ValidationError
         ''Value error, Provide either a password or a length for full analysis'')"
  using post_full_both_absent [of sample_tape] by simp

text \<open>The empty password and the absent one take the same path, for every length.\<close>

lemma full_flow_empty_is_absent: "full_flow (Some []) len r = full_flow None len r"
  by (simp add: full_flow_def)

text \<open>
  Claim C9. \<open>full_flow\<close> treats the empty password as an absent one: for every length
  \<open>L\<close> the generator accepts, \<open>4 \<le> L \<le> max_length\<close>, it generates a password of length
  \<open>L\<close> and returns that password with its validation and its strength, as it does
  without a password, and not the results of the empty password.
\<close>

theorem full_flow_empty_password_generates:
  assumes "4 \<le> L" and "L \<le> max_length get_policy"
  shows "\<exists>pw. generate_password (Some L) r = Inr pw \<and> int (length pw) = L
           \<and> full_flow (Some []) (Some L) r = Inr (pw, validate_password pw, score pw)
           \<and> full_flow (Some []) (Some L) r = full_flow None (Some L) r
           \<and> full_flow (Some []) (Some L) r \<noteq> Inr ([], validate_password [], score [])"
proof -
  from assms have e: "effective_length (Some L) = L" by (simp add: effective_length_def)
  with assms generate_password_ok [of "Some L" r]
  obtain pw where g: "generate_password (Some L) r = Inr pw" and l: "int (length pw) = L"
    by auto
  from l assms have "pw \<noteq> []" by auto
  with g l show ?thesis by (simp add: full_flow_def)
qed

theorem full_flow_empty_password_generates_witness:
  "(4::int) \<le> 4 \<and> 4 \<le> max_length get_policy
   \<and> full_flow (Some []) (Some 4) sample_tape
       = Inr (''Dk7]'', validate_password ''Dk7]'', score ''Dk7]'')
   \<and> full_flow None (Some 4) sample_tape
       = Inr (''Dk7]'', validate_password ''Dk7]'', score ''Dk7]'')"
proof -
  have h1: "(4::int) \<le> 4" by simp
  have h2: "4 \<le> max_length get_policy" by (simp add: get_policy_def)
  from full_flow_empty_password_generates [OF h1 h2, of sample_tape] generate_4_sample h1 h2
  show ?thesis by auto
qed

end
